theory Spec2Isabelle
  imports Main
begin

section \<open>TrailSync: the offline-first synchronisation engine\<close>

text \<open>
  A shallow embedding of the client's local database layer (\<^verbatim>\<open>ActivityDB\<close>,
  \<^verbatim>\<open>SyncQueueDB\<close> and \<^verbatim>\<open>SettingsDB\<close> over Dexie), of the sync service
  (\<^verbatim>\<open>SyncService\<close>), of the HTTP client (\<^verbatim>\<open>APIService\<close>) and of the
  backend's activity controller (\<^verbatim>\<open>exports.getActivities\<close> and its siblings
  over the Mongoose model \<^verbatim>\<open>Activity\<close>).

  Every \<^verbatim>\<open>async\<close> function becomes a function from the state of the world to a
  result and the new state; a thrown \<^verbatim>\<open>Error\<close> is the value \<open>Inl message\<close>.
  Timestamps (ISO strings in the source, compared through \<^verbatim>\<open>new Date\<close>) are
  milliseconds as natural numbers.
\<close>

subsection \<open>Data model\<close>

datatype status = Pending | Synced | Conflict

text \<open>
  An activity-shaped JavaScript object: every key may be absent (\<open>None\<close>). The same
  shape is used for rows of the local \<^verbatim>\<open>activities\<close> table, for backend
  documents, for request bodies and for the patches handed to \<^verbatim>\<open>update\<close>.
  \<open>x_id\<close> is the key \<^verbatim>\<open>_id\<close> and \<open>atype\<close> the key \<^verbatim>\<open>type\<close>; the
  remaining attributes of the schema (route, steps, notes, ...) are plain data that is
  copied like \<open>distance\<close> and is left out. The local primary key \<^verbatim>\<open>id\<close> is kept
  beside the row, not in it: the objects given to \<^verbatim>\<open>add\<close> do not carry it.
\<close>

record activity =
  x_id :: "string option"
  serverId :: "string option"
  atype :: "string option"
  startTime :: "nat option"
  endTime :: "nat option"
  duration :: "int option"
  distance :: "int option"
  syncStatus :: "status option"
  lastModified :: "nat option"

datatype operation = Create | Update | Delete

record qitem =
  operation :: operation
  activityId :: nat
  data :: "activity option"
  timestamp :: nat
  retryCount :: nat
  lastAttempt :: "nat option"

record pushResults =
  push_success :: nat
  push_failed :: nat
  push_errors :: "(nat \<times> string) list"

record pullResults =
  added :: nat
  updated :: nat
  conflicts :: nat

record syncResult =
  success :: bool
  message :: string
  push :: "pushResults option"
  pull :: "pullResults option"

text \<open>
  The state of the world. A Dexie table with schema \<^verbatim>\<open>++id\<close> is the list of its
  rows in primary-key order together with the last key its generator gave out (the
  generator is not reset by \<^verbatim>\<open>clear\<close>). \<open>lastSync\<close> is the setting of that name.
  \<open>docs\<close> is the backend's collection in insertion order, \<open>oidCounter\<close> the number of
  object identifiers it has generated. \<open>faults\<close> says, for each HTTP request still to
  come, whether the transport loses it (\<open>True\<close>); an empty list loses none.
  \<open>isSyncing\<close> is the field of the \<^verbatim>\<open>SyncService\<close> singleton, \<open>onLine\<close> is
  \<^verbatim>\<open>navigator.onLine\<close>, and \<open>clock\<close> is what \<^verbatim>\<open>new Date()\<close> returns, on
  the client and on the server; it moves between operations, not within one.
\<close>

record world =
  activities :: "(nat \<times> activity) list"
  activitiesKey :: nat
  syncQueue :: "(nat \<times> qitem) list"
  syncQueueKey :: nat
  lastSync :: "nat option"
  docs :: "activity list"
  oidCounter :: nat
  faults :: "bool list"
  isSyncing :: bool
  onLine :: bool
  clock :: nat

subsection \<open>JavaScript objects\<close>

definition orElse :: "'a option \<Rightarrow> 'a option \<Rightarrow> 'a option" where
  "orElse new old = (case new of None \<Rightarrow> old | Some v \<Rightarrow> Some v)"

text \<open>\<^verbatim>\<open>{...a, ...b}\<close>: the keys of \<open>b\<close> override those of \<open>a\<close>.\<close>

definition spread :: "activity \<Rightarrow> activity \<Rightarrow> activity" where
  "spread a b =
     \<lparr> x_id = orElse (x_id b) (x_id a),
       serverId = orElse (serverId b) (serverId a),
       atype = orElse (atype b) (atype a),
       startTime = orElse (startTime b) (startTime a),
       endTime = orElse (endTime b) (endTime a),
       duration = orElse (duration b) (duration a),
       distance = orElse (distance b) (distance a),
       syncStatus = orElse (syncStatus b) (syncStatus a),
       lastModified = orElse (lastModified b) (lastModified a) \<rparr>"

text \<open>Truthiness of a string-valued key: absent and the empty string are falsy.\<close>

definition truthy :: "string option \<Rightarrow> bool" where
  "truthy s = (case s of None \<Rightarrow> False | Some v \<Rightarrow> v \<noteq> [])"

definition falsy :: "string option \<Rightarrow> bool" where
  "falsy s = (case s of None \<Rightarrow> True | Some v \<Rightarrow> v = [])"

subsection \<open>Dexie tables\<close>

definition tbl_get :: "nat \<Rightarrow> (nat \<times> 'a) list \<Rightarrow> 'a option" where
  "tbl_get k t = map_of t k"

text \<open>\<^verbatim>\<open>table.update(key, changes)\<close> changes the row with that key and does nothing
  when there is none.\<close>

definition tbl_update :: "nat \<Rightarrow> ('a \<Rightarrow> 'a) \<Rightarrow> (nat \<times> 'a) list \<Rightarrow> (nat \<times> 'a) list" where
  "tbl_update k f t = map (\<lambda>(i, v). if i = k then (i, f v) else (i, v)) t"

definition tbl_delete :: "nat \<Rightarrow> (nat \<times> 'a) list \<Rightarrow> (nat \<times> 'a) list" where
  "tbl_delete k t = filter (\<lambda>(i, v). i \<noteq> k) t"

text \<open>\<^verbatim>\<open>db.syncQueue.add\<close> with the four fields every caller gives it.\<close>

definition enqueue :: "operation \<Rightarrow> nat \<Rightarrow> activity option \<Rightarrow> world \<Rightarrow> world" where
  "enqueue opn aid d w =
     w\<lparr> syncQueue := syncQueue w @
           [(Suc (syncQueueKey w),
             \<lparr> operation = opn, activityId = aid, data = d, timestamp = clock w,
               retryCount = 0, lastAttempt = None \<rparr>)],
        syncQueueKey := Suc (syncQueueKey w) \<rparr>"

subsection \<open>ActivityDB\<close>

definition ActivityDB_add :: "activity \<Rightarrow> world \<Rightarrow> nat \<times> world" where
  "ActivityDB_add a w =
     (let i = Suc (activitiesKey w);
          row = a\<lparr> syncStatus := Some Pending, lastModified := Some (clock w) \<rparr>;
          w1 = w\<lparr> activities := activities w @ [(i, row)], activitiesKey := i \<rparr>
      in (i, enqueue Create i (Some a) w1))"

definition stKey :: "activity \<Rightarrow> nat" where
  "stKey a = (case startTime a of None \<Rightarrow> 0 | Some t \<Rightarrow> t)"

text \<open>\<^verbatim>\<open>getAll()\<close> without filters, as the sync service calls it:
  \<^verbatim>\<open>orderBy('startTime').reverse()\<close> walks the index on \<^verbatim>\<open>startTime\<close>
  backwards, and a row without that key is not in the index.\<close>

definition ActivityDB_getAll :: "world \<Rightarrow> (nat \<times> activity) list" where
  "ActivityDB_getAll w =
     rev (sort_key (\<lambda>(i, a). stKey a) (filter (\<lambda>(i, a). startTime a \<noteq> None) (activities w)))"

definition ActivityDB_getById :: "nat \<Rightarrow> world \<Rightarrow> activity option" where
  "ActivityDB_getById i w = tbl_get i (activities w)"

definition ActivityDB_update :: "nat \<Rightarrow> activity \<Rightarrow> world \<Rightarrow> world" where
  "ActivityDB_update i updates w =
     (let changes = updates\<lparr> syncStatus := Some Pending, lastModified := Some (clock w) \<rparr>;
          w1 = w\<lparr> activities := tbl_update i (\<lambda>r. spread r changes) (activities w) \<rparr>
      in enqueue Update i (Some updates) w1)"

definition ActivityDB_delete :: "nat \<Rightarrow> world \<Rightarrow> world" where
  "ActivityDB_delete i w =
     enqueue Delete i None (w\<lparr> activities := tbl_delete i (activities w) \<rparr>)"

definition ActivityDB_markSynced :: "nat \<Rightarrow> string option \<Rightarrow> world \<Rightarrow> world" where
  "ActivityDB_markSynced i sid w =
     w\<lparr> activities :=
          tbl_update i (\<lambda>r. r\<lparr> syncStatus := Some Synced, serverId := sid \<rparr>) (activities w) \<rparr>"

subsection \<open>SyncQueueDB and SettingsDB\<close>

text \<open>\<^verbatim>\<open>orderBy('timestamp')\<close>: by timestamp, rows with the same one by primary key.\<close>

definition SyncQueueDB_getAll :: "world \<Rightarrow> (nat \<times> qitem) list" where
  "SyncQueueDB_getAll w = sort_key (\<lambda>(i, q). timestamp q) (syncQueue w)"

definition SyncQueueDB_remove :: "nat \<Rightarrow> world \<Rightarrow> world" where
  "SyncQueueDB_remove i w = w\<lparr> syncQueue := tbl_delete i (syncQueue w) \<rparr>"

definition SyncQueueDB_incrementRetry :: "nat \<Rightarrow> world \<Rightarrow> world" where
  "SyncQueueDB_incrementRetry i w =
     (case tbl_get i (syncQueue w) of
        None \<Rightarrow> w
      | Some item \<Rightarrow>
          w\<lparr> syncQueue :=
               tbl_update i (\<lambda>q. q\<lparr> retryCount := retryCount item + 1,
                                     lastAttempt := Some (clock w) \<rparr>) (syncQueue w) \<rparr>)"

definition SyncQueueDB_clear :: "world \<Rightarrow> world" where
  "SyncQueueDB_clear w = w\<lparr> syncQueue := [] \<rparr>"

definition SettingsDB_set_lastSync :: "world \<Rightarrow> world" where
  "SettingsDB_set_lastSync w = w\<lparr> lastSync := Some (clock w) \<rparr>"

subsection \<open>The backend's activity controller\<close>

text \<open>
  What axios throws for a lost request and for a response with an error status.
\<close>

definition networkError :: string where
  "networkError = ''Network Error''"

definition status400 :: string where
  "status400 = ''Request failed with status code 400''"

definition status404 :: string where
  "status404 = ''Request failed with status code 404''"

definition status500 :: string where
  "status500 = ''Request failed with status code 500''"

definition typeEnum :: "string list" where
  "typeEnum = [''walk'', ''run'', ''ride'']"

text \<open>What the schema's validators reject, on the modelled keys: \<^verbatim>\<open>type\<close> required and in the
  enumeration, \<^verbatim>\<open>duration\<close> required, \<^verbatim>\<open>distance\<close> required and at least 0.\<close>

definition invalid :: "activity \<Rightarrow> bool" where
  "invalid d =
     ((case atype d of None \<Rightarrow> True | Some t \<Rightarrow> t \<notin> set typeEnum) \<or>
      duration d = None \<or>
      (case distance d of None \<Rightarrow> True | Some m \<Rightarrow> m < 0))"

text \<open>A generated object identifier: never empty, different for different counters.\<close>

definition newOid :: "nat \<Rightarrow> string" where
  "newOid n = CHR ''o'' # replicate n (CHR ''x'')"

definition findDoc :: "string \<Rightarrow> world \<Rightarrow> activity option" where
  "findDoc oid w = find (\<lambda>d. x_id d = Some oid) (docs w)"

text \<open>
  \<^verbatim>\<open>exports.createActivity\<close>. The three required keys are checked by hand, a
  missing (or zero) duration is computed, and \<^verbatim>\<open>Activity.create\<close> validates, drops
  the keys that are not in the schema (\<^verbatim>\<open>serverId\<close>), takes the body's
  \<^verbatim>\<open>_id\<close> when it has one (an empty one does not cast, one already in the
  collection is a duplicate key) and generates one otherwise; the pre-save hook stamps
  \<^verbatim>\<open>lastModified\<close>.
\<close>

definition exports_createActivity :: "activity \<Rightarrow> world \<Rightarrow> (string + activity) \<times> world" where
  "exports_createActivity body w =
     (if falsy (atype body) \<or> startTime body = None \<or> endTime body = None
      then (Inl status400, w)
      else
        let computed = (case (startTime body, endTime body) of
                          (Some s, Some e) \<Rightarrow> Some ((int e - int s) div 1000)
                        | _ \<Rightarrow> None);
            activityData = body\<lparr> duration :=
                              (if duration body = None \<or> duration body = Some 0
                               then computed else duration body) \<rparr>;
            doc = activityData\<lparr> serverId := None,
                                syncStatus := orElse (syncStatus body) (Some Synced),
                                lastModified := Some (clock w) \<rparr>
        in if invalid activityData \<or> x_id body = Some [] then (Inl status400, w)
           else (case x_id body of
                   Some oid \<Rightarrow>
                     (if findDoc oid w \<noteq> None then (Inl status500, w)
                      else (Inr doc, w\<lparr> docs := docs w @ [doc] \<rparr>))
                 | None \<Rightarrow>
                     (let doc' = doc\<lparr> x_id := Some (newOid (oidCounter w)) \<rparr>
                      in (Inr doc', w\<lparr> docs := docs w @ [doc'],
                                      oidCounter := Suc (oidCounter w) \<rparr>))))"

text \<open>\<^verbatim>\<open>exports.updateActivity\<close>: \<^verbatim>\<open>Object.assign\<close> of the body on the document
  found (its \<^verbatim>\<open>_id\<close> stays, keys outside the schema are dropped), a fresh
  \<^verbatim>\<open>lastModified\<close>, and \<^verbatim>\<open>save\<close> with validation.\<close>

definition exports_updateActivity ::
    "string \<Rightarrow> activity \<Rightarrow> world \<Rightarrow> (string + activity) \<times> world" where
  "exports_updateActivity oid body w =
     (case findDoc oid w of
        None \<Rightarrow> (Inl status404, w)
      | Some d \<Rightarrow>
          (let d' = (spread d (body\<lparr> x_id := None, serverId := None \<rparr>))
                      \<lparr> lastModified := Some (clock w) \<rparr>
           in if invalid d' then (Inl status400, w)
              else (Inr d', w\<lparr> docs := map (\<lambda>x. if x_id x = Some oid then d' else x) (docs w) \<rparr>)))"

definition exports_deleteActivity :: "string \<Rightarrow> world \<Rightarrow> (string + unit) \<times> world" where
  "exports_deleteActivity oid w =
     (case findDoc oid w of
        None \<Rightarrow> (Inl status404, w)
      | Some d \<Rightarrow> (Inr (), w\<lparr> docs := filter (\<lambda>x. x_id x \<noteq> Some oid) (docs w) \<rparr>))"

text \<open>\<^verbatim>\<open>exports.getActivities\<close> with the two query parameters the sync service
  uses: \<^verbatim>\<open>startDate\<close> selects on \<^verbatim>\<open>startTime\<close>, the sort is
  \<^verbatim>\<open>-startTime\<close> (documents with the same start time stay in insertion order),
  and the limit is 50 unless the query gives one (0 is no limit).\<close>

definition exports_getActivities :: "nat option \<Rightarrow> nat option \<Rightarrow> world \<Rightarrow> activity list" where
  "exports_getActivities startDate limit w =
     (let matching = filter (\<lambda>d. case startDate of
                                    None \<Rightarrow> True
                                  | Some s \<Rightarrow> (case startTime d of None \<Rightarrow> False | Some t \<Rightarrow> s \<le> t))
                            (docs w);
          sorted = sort_key (\<lambda>d. - int (stKey d)) matching;
          lim = (case limit of None \<Rightarrow> 50 | Some n \<Rightarrow> n)
      in if lim = 0 then sorted else take lim sorted)"

subsection \<open>APIService\<close>

definition transport :: "world \<Rightarrow> bool \<times> world" where
  "transport w = (case faults w of [] \<Rightarrow> (True, w) | f # fs \<Rightarrow> (\<not> f, w\<lparr> faults := fs \<rparr>))"

definition api_healthCheck :: "world \<Rightarrow> (string + unit) \<times> world" where
  "api_healthCheck w =
     (case transport w of (ok, w1) \<Rightarrow>
        if ok then (Inr (), w1) else (Inl ''Backend is not reachable'', w1))"

text \<open>\<^verbatim>\<open>getActivities(filters)\<close>: a filter is put in the query when it is truthy.\<close>

definition api_getActivities ::
    "nat option \<Rightarrow> nat option \<Rightarrow> world \<Rightarrow> (string + activity list) \<times> world" where
  "api_getActivities startDate limit w =
     (case transport w of (ok, w1) \<Rightarrow>
        if ok
        then (Inr (exports_getActivities startDate (if limit = Some 0 then None else limit) w1), w1)
        else (Inl networkError, w1))"

definition api_createActivity :: "activity \<Rightarrow> world \<Rightarrow> (string + activity) \<times> world" where
  "api_createActivity a w =
     (case transport w of (ok, w1) \<Rightarrow>
        if ok then exports_createActivity a w1 else (Inl networkError, w1))"

definition api_updateActivity ::
    "string \<Rightarrow> activity \<Rightarrow> world \<Rightarrow> (string + activity) \<times> world" where
  "api_updateActivity oid updates w =
     (case transport w of (ok, w1) \<Rightarrow>
        if ok then exports_updateActivity oid updates w1 else (Inl networkError, w1))"

definition api_deleteActivity :: "string \<Rightarrow> world \<Rightarrow> (string + unit) \<times> world" where
  "api_deleteActivity oid w =
     (case transport w of (ok, w1) \<Rightarrow>
        if ok then exports_deleteActivity oid w1 else (Inl networkError, w1))"

subsection \<open>SyncService: the push phase\<close>

definition emptyActivity :: activity where
  "emptyActivity =
     \<lparr> x_id = None, serverId = None, atype = None, startTime = None, endTime = None,
       duration = None, distance = None, syncStatus = None, lastModified = None \<rparr>"

definition syncCreate :: "qitem \<Rightarrow> world \<Rightarrow> (string + unit) \<times> world" where
  "syncCreate item w =
     (case ActivityDB_getById (activityId item) w of
        None \<Rightarrow> (Inl ''Activity not found locally'', w)
      | Some activity \<Rightarrow>
          (case api_createActivity activity w of
             (Inl e, w1) \<Rightarrow> (Inl e, w1)
           | (Inr response, w1) \<Rightarrow>
               (Inr (), ActivityDB_markSynced (activityId item) (x_id response) w1)))"

definition syncUpdate :: "qitem \<Rightarrow> world \<Rightarrow> (string + unit) \<times> world" where
  "syncUpdate item w =
     (case ActivityDB_getById (activityId item) w of
        None \<Rightarrow> (Inl ''Activity not found locally'', w)
      | Some activity \<Rightarrow>
          (case serverId activity of
             None \<Rightarrow> (Inl ''Cannot update activity without server ID'', w)
           | Some sid \<Rightarrow>
               if sid = [] then (Inl ''Cannot update activity without server ID'', w)
               else
                 (case api_updateActivity sid
                         (case data item of None \<Rightarrow> emptyActivity | Some d \<Rightarrow> d) w of
                    (Inl e, w1) \<Rightarrow> (Inl e, w1)
                  | (Inr response, w1) \<Rightarrow>
                      (Inr (), ActivityDB_markSynced (activityId item) (Some sid) w1))))"

definition syncDelete :: "qitem \<Rightarrow> world \<Rightarrow> (string + unit) \<times> world" where
  "syncDelete item w =
     (case ActivityDB_getById (activityId item) w of
        None \<Rightarrow> (Inr (), w)
      | Some activity \<Rightarrow>
          (case serverId activity of
             None \<Rightarrow> (Inr (), w)
           | Some sid \<Rightarrow>
               if sid = [] then (Inr (), w) else api_deleteActivity sid w))"

text \<open>The \<^verbatim>\<open>switch\<close> on \<^verbatim>\<open>item.operation\<close>.\<close>

definition dispatch :: "qitem \<Rightarrow> world \<Rightarrow> (string + unit) \<times> world" where
  "dispatch item w =
     (case operation item of
        Create \<Rightarrow> syncCreate item w
      | Update \<Rightarrow> syncUpdate item w
      | Delete \<Rightarrow> syncDelete item w)"

text \<open>One turn of the loop of \<^verbatim>\<open>processSyncQueue\<close>: the \<^verbatim>\<open>try\<close> and its
  \<^verbatim>\<open>catch\<close>. \<open>item\<close> is the row as it was read before the loop.\<close>

definition processItem ::
    "nat \<times> qitem \<Rightarrow> pushResults \<Rightarrow> world \<Rightarrow> pushResults \<times> world" where
  "processItem row results w =
     (case row of (i, item) \<Rightarrow>
        (case dispatch item w of
           (Inr u, w1) \<Rightarrow>
             (results\<lparr> push_success := push_success results + 1 \<rparr>, SyncQueueDB_remove i w1)
         | (Inl e, w1) \<Rightarrow>
             (let w2 = SyncQueueDB_incrementRetry i w1;
                  results' = results\<lparr> push_failed := push_failed results + 1,
                                       push_errors := push_errors results @ [(i, e)] \<rparr>
              in (results', if 5 \<le> retryCount item then SyncQueueDB_remove i w2 else w2))))"

fun processItems ::
    "(nat \<times> qitem) list \<Rightarrow> pushResults \<Rightarrow> world \<Rightarrow> pushResults \<times> world" where
  "processItems [] results w = (results, w)"
| "processItems (row # queue) results w =
     (case processItem row results w of (results', w') \<Rightarrow> processItems queue results' w')"

definition processSyncQueue :: "world \<Rightarrow> pushResults \<times> world" where
  "processSyncQueue w =
     processItems (SyncQueueDB_getAll w)
       \<lparr> push_success = 0, push_failed = 0, push_errors = [] \<rparr> w"

subsection \<open>SyncService: the pull phase\<close>

text \<open>\<^verbatim>\<open>{...serverActivity, serverId: serverActivity._id, syncStatus: 'synced'}\<close>\<close>

definition fromServer :: "activity \<Rightarrow> activity" where
  "fromServer serverActivity =
     serverActivity\<lparr> serverId := x_id serverActivity, syncStatus := Some Synced \<rparr>"

text \<open>\<^verbatim>\<open>new Date(a) > new Date(b)\<close>; a missing date is an invalid one, and every
  comparison with an invalid date is false.\<close>

definition laterThan :: "nat option \<Rightarrow> nat option \<Rightarrow> bool" where
  "laterThan a b = (case (a, b) of (Some s, Some l) \<Rightarrow> l < s | _ \<Rightarrow> False)"

text \<open>One turn of the loop of \<^verbatim>\<open>pullFromServer\<close>.\<close>

definition reconcile :: "activity \<Rightarrow> pullResults \<Rightarrow> world \<Rightarrow> pullResults \<times> world" where
  "reconcile serverActivity results w =
     (case find (\<lambda>(i, a). serverId a = x_id serverActivity) (ActivityDB_getAll w) of
        Some (i, localActivity) \<Rightarrow>
          (let newer = laterThan (lastModified serverActivity) (lastModified localActivity);
               results1 = (if newer \<and> syncStatus localActivity = Some Pending
                           then results\<lparr> conflicts := conflicts results + 1 \<rparr> else results)
           in if newer
              then (results1\<lparr> updated := updated results1 + 1 \<rparr>,
                    ActivityDB_update i (fromServer serverActivity) w)
              else (results1, w))
      | None \<Rightarrow>
          (results\<lparr> added := added results + 1 \<rparr>,
           snd (ActivityDB_add (fromServer serverActivity) w)))"

fun reconcileAll :: "activity list \<Rightarrow> pullResults \<Rightarrow> world \<Rightarrow> pullResults \<times> world" where
  "reconcileAll [] results w = (results, w)"
| "reconcileAll (serverActivity # rest) results w =
     (case reconcile serverActivity results w of
        (results', w') \<Rightarrow> reconcileAll rest results' w')"

definition pullFromServer :: "world \<Rightarrow> (string + pullResults) \<times> world" where
  "pullFromServer w =
     (case api_getActivities (lastSync w) None w of
        (Inl e, w1) \<Rightarrow> (Inl e, w1)
      | (Inr serverActivities, w1) \<Rightarrow>
          (case reconcileAll serverActivities \<lparr> added = 0, updated = 0, conflicts = 0 \<rparr> w1 of
             (results, w2) \<Rightarrow> (Inr results, w2)))"

subsection \<open>SyncService: sync and forceSync\<close>

definition busyResult :: syncResult where
  "busyResult =
     \<lparr> success = False, message = ''Sync already in progress'', push = None, pull = None \<rparr>"

definition offlineResult :: syncResult where
  "offlineResult =
     \<lparr> success = False, message = ''Device is offline'', push = None, pull = None \<rparr>"

text \<open>The start of \<^verbatim>\<open>sync()\<close>, up to and including \<^verbatim>\<open>this.isSyncing = true\<close>.
  It has no \<^verbatim>\<open>await\<close>, so it runs as one step; \<open>Some\<close> is an early return.\<close>

definition sync_enter :: "world \<Rightarrow> syncResult option \<times> world" where
  "sync_enter w =
     (if isSyncing w then (Some busyResult, w)
      else if \<not> onLine w then (Some offlineResult, w)
      else (None, w\<lparr> isSyncing := True \<rparr>))"

text \<open>The body of the \<^verbatim>\<open>try\<close> block.\<close>

definition sync_try :: "world \<Rightarrow> (string + syncResult) \<times> world" where
  "sync_try w =
     (case api_healthCheck w of
        (Inl e, w1) \<Rightarrow> (Inl ''Backend is not reachable'', w1)
      | (Inr u, w1) \<Rightarrow>
          (case processSyncQueue w1 of (syncResults, w2) \<Rightarrow>
             (case pullFromServer w2 of
                (Inl e, w3) \<Rightarrow> (Inl e, w3)
              | (Inr pullResults, w3) \<Rightarrow>
                  (Inr \<lparr> success = True, message = ''Sync completed'',
                         push = Some syncResults, pull = Some pullResults \<rparr>,
                   SettingsDB_set_lastSync w3))))"

text \<open>\<^verbatim>\<open>try\<close>, \<^verbatim>\<open>catch\<close> and \<^verbatim>\<open>finally\<close>.\<close>

definition sync_run :: "world \<Rightarrow> syncResult \<times> world" where
  "sync_run w =
     (case sync_try w of (r, w1) \<Rightarrow>
        ((case r of
            Inr result \<Rightarrow> result
          | Inl e \<Rightarrow> \<lparr> success = False, message = e, push = None, pull = None \<rparr>),
         w1\<lparr> isSyncing := False \<rparr>))"

definition sync :: "world \<Rightarrow> syncResult \<times> world" where
  "sync w =
     (case sync_enter w of
        (Some result, w1) \<Rightarrow> (result, w1)
      | (None, w1) \<Rightarrow> sync_run w1)"

definition forceSync :: "world \<Rightarrow> (string + nat) \<times> world" where
  "forceSync w =
     (if \<not> onLine w then (Inl ''Cannot force sync while offline'', w)
      else
        (case api_getActivities None (Some 1000) (SyncQueueDB_clear w) of
           (Inl e, w1) \<Rightarrow> (Inl e, w1)
         | (Inr serverActivities, w1) \<Rightarrow>
             (let w2 = fold (\<lambda>(i, a). ActivityDB_delete i) (ActivityDB_getAll w1) w1;
                  w3 = fold (\<lambda>serverActivity v. snd (ActivityDB_add (fromServer serverActivity) v))
                            serverActivities w2
              in (Inr (length serverActivities), SettingsDB_set_lastSync w3))))"

subsection \<open>Scenarios\<close>

text \<open>A fresh installation that is online, and the finished run of the specification's
  scenario (kind run, 3000 m, 1800 s).\<close>

definition world0 :: world where
  "world0 =
     \<lparr> activities = [], activitiesKey = 0, syncQueue = [], syncQueueKey = 0,
       lastSync = None, docs = [], oidCounter = 0, faults = [], isSyncing = False,
       onLine = True, clock = 1000 \<rparr>"

definition run3k :: activity where
  "run3k =
     \<lparr> x_id = None, serverId = None, atype = Some ''run'', startTime = Some 100,
       endTime = Some 900, duration = Some 1800, distance = Some 3000,
       syncStatus = None, lastModified = None \<rparr>"

text \<open>The run recorded on the fresh installation, before any sync.\<close>

definition recorded :: world where
  "recorded = snd (ActivityDB_add run3k world0)"

text \<open>A patch whose caller tries to set the sync attributes himself.\<close>

definition forgedPatch :: activity where
  "forgedPatch =
     emptyActivity\<lparr> distance := Some 3100, syncStatus := Some Synced, lastModified := Some 5 \<rparr>"

text \<open>The first sync of that installation: the run is created on the server.\<close>

definition firstSync :: world where
  "firstSync = snd (sync recorded)"

text \<open>Later the user edits the run and then deletes it, offline or not.\<close>

definition edited :: world where
  "edited =
     ActivityDB_delete 1
       (ActivityDB_update 1 (emptyActivity\<lparr> distance := Some 3100 \<rparr>)
          (firstSync\<lparr> clock := 2000 \<rparr>))"

text \<open>A ride that another device has put on the server.\<close>

definition serverRide :: activity where
  "serverRide =
     \<lparr> x_id = Some ''s1'', serverId = None, atype = Some ''ride'', startTime = Some 200,
       endTime = Some 800, duration = Some 600, distance = Some 5000,
       syncStatus = Some Synced, lastModified = Some 500 \<rparr>"

text \<open>A fresh installation facing a server that holds the ride.\<close>

definition remoteOnly :: world where
  "remoteOnly = world0\<lparr> docs := [serverRide] \<rparr>"

text \<open>The local copy of the ride, edited locally at time 400 and still pending, while
  the server's version is of time 500.\<close>

definition localRide :: activity where
  "localRide =
     serverRide\<lparr> x_id := None, serverId := Some ''s1'', distance := Some 4000,
                 syncStatus := Some Pending, lastModified := Some 400 \<rparr>"

definition conflictWorld :: world where
  "conflictWorld =
     world0\<lparr> activities := [(1, localRide)], activitiesKey := 1, docs := [serverRide] \<rparr>"

text \<open>The installation with its unsynced run, facing the server that holds the ride.\<close>

definition diverged :: world where
  "diverged = recorded\<lparr> docs := [serverRide] \<rparr>"

text \<open>A synced local copy of the ride of time 300, a last sync at time 400, and the
  server's version modified at time 500; the ride started at time 200.\<close>

definition staleWorld :: world where
  "staleWorld =
     world0\<lparr> activities := [(1, localRide\<lparr> syncStatus := Some Synced,
                                            lastModified := Some 300 \<rparr>)],
             activitiesKey := 1, lastSync := Some 400, docs := [serverRide] \<rparr>"

text \<open>A sync cycle is in flight on \<open>diverged\<close>: the start of \<^verbatim>\<open>sync()\<close> has run.\<close>

definition inFlight :: world where
  "inFlight = snd (sync_enter diverged)"

text \<open>The installation with its unsynced run while the device is offline, and while
  the transport loses the next request.\<close>

definition offlineWorld :: world where
  "offlineWorld = recorded\<lparr> onLine := False \<rparr>"

definition unreachable :: world where
  "unreachable = recorded\<lparr> faults := [True] \<rparr>"

subsection \<open>The invariant of the local store and the reachable states\<close>

text \<open>A row that is synced has a remote identifier that is neither absent nor empty.\<close>

definition rowsOk :: "(nat \<times> activity) list \<Rightarrow> bool" where
  "rowsOk t = (\<forall>(i, a) \<in> set t. syncStatus a = Some Synced \<longrightarrow> truthy (serverId a))"

definition syncedHaveServerId :: "world \<Rightarrow> bool" where
  "syncedHaveServerId w = rowsOk (activities w)"

text \<open>
  The states the system can be in. It starts with an empty local store, whatever the
  server holds. The user-facing record API adds, updates and deletes; the sync service
  runs \<^verbatim>\<open>sync()\<close> and \<^verbatim>\<open>forceSync()\<close>, and the settings page clears
  the queue. Since other calls may run while a
  cycle awaits, the start of \<^verbatim>\<open>sync()\<close>, the rest of it, one turn of the push loop
  (on any queue row it may have read) and one turn of the pull loop (on any server record)
  are steps of their own. The environment may change the server's documents, the
  transport, the connectivity and the clock at any time.
\<close>

inductive reachable :: "world \<Rightarrow> bool" where
  fresh: "activities w = [] \<Longrightarrow> reachable w"
| add: "reachable w \<Longrightarrow> reachable (snd (ActivityDB_add a w))"
| update: "reachable w \<Longrightarrow> reachable (ActivityDB_update i updates w)"
| delete: "reachable w \<Longrightarrow> reachable (ActivityDB_delete i w)"
| sync: "reachable w \<Longrightarrow> reachable (snd (sync w))"
| force: "reachable w \<Longrightarrow> reachable (snd (forceSync w))"
| enter: "reachable w \<Longrightarrow> reachable (snd (sync_enter w))"
| run: "reachable w \<Longrightarrow> reachable (snd (sync_run w))"
| item: "reachable w \<Longrightarrow> reachable (snd (processItem row results w))"
| pulled: "reachable w \<Longrightarrow> reachable (snd (reconcile serverActivity presults w))"
| cleared: "reachable w \<Longrightarrow> reachable (SyncQueueDB_clear w)"
| env: "reachable w \<Longrightarrow>
         reachable (w\<lparr> docs := ds, oidCounter := n, faults := fs, onLine := b, clock := t \<rparr>)"

text \<open>\<open>n\<close> sync cycles in a row.\<close>

fun syncCycles :: "nat \<Rightarrow> world \<Rightarrow> world" where
  "syncCycles 0 w = w"
| "syncCycles (Suc n) w = syncCycles n (snd (sync w))"

text \<open>The installation with its unsynced run on a transport that, in each of six cycles,
  delivers the health probe, loses the request of the push and delivers the list request.\<close>

definition lossy :: world where
  "lossy = recorded\<lparr> faults := concat (replicate 6 [False, True, False]) \<rparr>"

text \<open>The states in which the push phases of the first and of the sixth cycle start.\<close>

definition firstPush :: world where
  "firstPush = snd (api_healthCheck lossy)"

definition sixthPush :: world where
  "sixthPush = snd (api_healthCheck (syncCycles 5 lossy))"

text \<open>The queue entries that a cycle's result reports as failed.\<close>

definition failedEntries :: "syncResult \<Rightarrow> nat list" where
  "failedEntries r = (case push r of None \<Rightarrow> [] | Some p \<Rightarrow> map fst (push_errors p))"

text \<open>\<open>n\<close> sync cycles in a row, observed: for each cycle the entries it reports as failed
  and, after it, the keys in the queue with their retry counters.\<close>

fun cycleTrace :: "nat \<Rightarrow> world \<Rightarrow> (nat list \<times> (nat \<times> nat) list) list" where
  "cycleTrace 0 w = []"
| "cycleTrace (Suc n) w =
     (case sync w of (result, w') \<Rightarrow>
        (failedEntries result, map (\<lambda>(i, q). (i, retryCount q)) (syncQueue w')) #
        cycleTrace n w')"

section \<open>Properties\<close>

subsection \<open>Tables\<close>

lemma tbl_update_absent: "k \<notin> fst ` set t \<Longrightarrow> tbl_update k f t = t"
  by (induction t) (auto simp: tbl_update_def)

subsection \<open>Local mutations are always pending\<close>

text \<open>
  Claim C10, as amended. \<^verbatim>\<open>ActivityDB.add\<close> returns the next key and appends one
  row under it: the object given, with \<open>syncStatus\<close> pending and \<open>lastModified\<close> the
  current time whatever the object says about them; and it appends one \<open>create\<close> entry
  for that key, carrying the object as given, to the sync queue.
  \<^verbatim>\<open>ActivityDB.update\<close> appends one \<open>update\<close> entry for the given key, carrying the
  patch as given, in every case. In the table, each row with that key becomes the old row
  with the keys of the patch laid over it, and with \<open>syncStatus\<close> pending and
  \<open>lastModified\<close> the current time whatever the patch says about them; the other rows
  stay as they were. When no row has the key, the table stays as it was: nothing is
  stored.
\<close>

theorem add_update_store_pending:
  "ActivityDB_add a w =
     (Suc (activitiesKey w),
      w\<lparr> activities := activities w @
             [(Suc (activitiesKey w),
               a\<lparr> syncStatus := Some Pending, lastModified := Some (clock w) \<rparr>)],
         activitiesKey := Suc (activitiesKey w),
         syncQueue := syncQueue w @
             [(Suc (syncQueueKey w),
               \<lparr> operation = Create, activityId = Suc (activitiesKey w), data = Some a,
                 timestamp = clock w, retryCount = 0, lastAttempt = None \<rparr>)],
         syncQueueKey := Suc (syncQueueKey w) \<rparr>) \<and>
   activities (ActivityDB_update i updates w) =
     map (\<lambda>(j, r).
            if j = i
            then (j, \<lparr> x_id = (case x_id updates of None \<Rightarrow> x_id r | Some v \<Rightarrow> Some v),
                       serverId = (case serverId updates of None \<Rightarrow> serverId r | Some v \<Rightarrow> Some v),
                       atype = (case atype updates of None \<Rightarrow> atype r | Some v \<Rightarrow> Some v),
                       startTime = (case startTime updates of None \<Rightarrow> startTime r | Some v \<Rightarrow> Some v),
                       endTime = (case endTime updates of None \<Rightarrow> endTime r | Some v \<Rightarrow> Some v),
                       duration = (case duration updates of None \<Rightarrow> duration r | Some v \<Rightarrow> Some v),
                       distance = (case distance updates of None \<Rightarrow> distance r | Some v \<Rightarrow> Some v),
                       syncStatus = Some Pending,
                       lastModified = Some (clock w) \<rparr>)
            else (j, r))
         (activities w) \<and>
   (i \<notin> fst ` set (activities w) \<longrightarrow>
      activities (ActivityDB_update i updates w) = activities w) \<and>
   syncQueue (ActivityDB_update i updates w) =
     syncQueue w @
       [(Suc (syncQueueKey w),
         \<lparr> operation = Update, activityId = i, data = Some updates, timestamp = clock w,
           retryCount = 0, lastAttempt = None \<rparr>)] \<and>
   syncQueueKey (ActivityDB_update i updates w) = Suc (syncQueueKey w) \<and>
   activitiesKey (ActivityDB_update i updates w) = activitiesKey w"
proof (intro conjI impI)
  show "ActivityDB_add a w =
     (Suc (activitiesKey w),
      w\<lparr> activities := activities w @
             [(Suc (activitiesKey w),
               a\<lparr> syncStatus := Some Pending, lastModified := Some (clock w) \<rparr>)],
         activitiesKey := Suc (activitiesKey w),
         syncQueue := syncQueue w @
             [(Suc (syncQueueKey w),
               \<lparr> operation = Create, activityId = Suc (activitiesKey w), data = Some a,
                 timestamp = clock w, retryCount = 0, lastAttempt = None \<rparr>)],
         syncQueueKey := Suc (syncQueueKey w) \<rparr>)"
    by (simp add: ActivityDB_add_def enqueue_def Let_def)
  show "activities (ActivityDB_update i updates w) =
     map (\<lambda>(j, r).
            if j = i
            then (j, \<lparr> x_id = (case x_id updates of None \<Rightarrow> x_id r | Some v \<Rightarrow> Some v),
                       serverId = (case serverId updates of None \<Rightarrow> serverId r | Some v \<Rightarrow> Some v),
                       atype = (case atype updates of None \<Rightarrow> atype r | Some v \<Rightarrow> Some v),
                       startTime = (case startTime updates of None \<Rightarrow> startTime r | Some v \<Rightarrow> Some v),
                       endTime = (case endTime updates of None \<Rightarrow> endTime r | Some v \<Rightarrow> Some v),
                       duration = (case duration updates of None \<Rightarrow> duration r | Some v \<Rightarrow> Some v),
                       distance = (case distance updates of None \<Rightarrow> distance r | Some v \<Rightarrow> Some v),
                       syncStatus = Some Pending,
                       lastModified = Some (clock w) \<rparr>)
            else (j, r))
         (activities w)"
    by (auto simp: ActivityDB_update_def enqueue_def Let_def tbl_update_def spread_def orElse_def)
  show "activities (ActivityDB_update i updates w) = activities w"
    if "i \<notin> fst ` set (activities w)"
    using that by (simp add: ActivityDB_update_def enqueue_def Let_def tbl_update_absent)
  show "syncQueue (ActivityDB_update i updates w) =
     syncQueue w @
       [(Suc (syncQueueKey w),
         \<lparr> operation = Update, activityId = i, data = Some updates, timestamp = clock w,
           retryCount = 0, lastAttempt = None \<rparr>)]"
    by (simp add: ActivityDB_update_def enqueue_def Let_def)
  show "syncQueueKey (ActivityDB_update i updates w) = Suc (syncQueueKey w)"
    by (simp add: ActivityDB_update_def enqueue_def Let_def)
  show "activitiesKey (ActivityDB_update i updates w) = activitiesKey w"
    by (simp add: ActivityDB_update_def enqueue_def Let_def)
qed

theorem add_update_store_pending_witness:
  "activities recorded =
     [(1, run3k\<lparr> syncStatus := Some Pending, lastModified := Some 1000 \<rparr>)] \<and>
   activities (ActivityDB_update 1 forgedPatch recorded) =
     [(1, run3k\<lparr> distance := Some 3100, syncStatus := Some Pending,
                 lastModified := Some 1000 \<rparr>)] \<and>
   map (\<lambda>(k, q). (k, operation q, activityId q, data q))
       (syncQueue (ActivityDB_update 1 forgedPatch recorded)) =
     [(1, Create, 1, Some run3k), (2, Update, 1, Some forgedPatch)] \<and>
   7 \<notin> fst ` set (activities recorded) \<and>
   activities (ActivityDB_update 7 forgedPatch recorded) = activities recorded"
proof -
  note t = add_update_store_pending [where a = run3k and w = world0, THEN conjunct1]
  have a: "activities recorded =
     [(1, run3k\<lparr> syncStatus := Some Pending, lastModified := Some 1000 \<rparr>)]"
    unfolding recorded_def t by (simp add: world0_def)
  have q: "syncQueue recorded =
     [(1, \<lparr> operation = Create, activityId = 1, data = Some run3k, timestamp = 1000,
            retryCount = 0, lastAttempt = None \<rparr>)] \<and> syncQueueKey recorded = 1 \<and>
     clock recorded = 1000"
    unfolding recorded_def t by (simp add: world0_def)
  have n: "7 \<notin> fst ` set (activities recorded)" using a by simp
  show ?thesis
    using a q n
      add_update_store_pending [where w = recorded and i = 1 and updates = forgedPatch]
      add_update_store_pending [where w = recorded and i = 7 and updates = forgedPatch]
    by (simp add: forgedPatch_def emptyActivity_def run3k_def)
qed

text \<open>
  The claim as stated fails for \<^verbatim>\<open>update\<close>: with a key that is not in the table
  the call stores no record, pending or not, and still appends its \<open>update\<close> entry.
\<close>

theorem update_missing_key_stores_nothing:
  "tbl_get 7 (activities recorded) = None \<and>
   tbl_get 7 (activities (ActivityDB_update 7 forgedPatch recorded)) = None \<and>
   activities (ActivityDB_update 7 forgedPatch recorded) = activities recorded \<and>
   map (\<lambda>(k, q). (k, operation q, activityId q))
       (syncQueue (ActivityDB_update 7 forgedPatch recorded)) =
     [(1, Create, 1), (2, Update, 7)]"
  by code_simp

subsection \<open>Update then delete of a synced record\<close>

text \<open>
  Claim C1, evaluated on the code. The run carries the remote identifier \<open>o\<close> after the
  first sync. The user updates and then deletes it, so the queue holds \<open>update(1)\<close>
  followed by \<open>delete(1)\<close>, and the transport loses nothing. The push phase fails the
  update (the local row is gone), sends no delete, reports one success and one failure,
  and leaves the document \<open>o\<close> on the server and the update entry in the queue.
\<close>

theorem push_update_delete_keeps_remote:
  "map (\<lambda>(i, a). (i, serverId a)) (activities firstSync) = [(1, Some ''o'')] \<and>
   map x_id (docs firstSync) = [Some ''o''] \<and>
   map (\<lambda>(i, q). (operation q, activityId q)) (SyncQueueDB_getAll edited) =
     [(Update, 1), (Delete, 1)] \<and>
   faults edited = [] \<and>
   fst (processSyncQueue edited) =
     \<lparr> push_success = 1, push_failed = 1,
       push_errors = [(2, ''Activity not found locally'')] \<rparr> \<and>
   map x_id (docs (snd (processSyncQueue edited))) = [Some ''o''] \<and>
   map (\<lambda>(i, q). (operation q, activityId q, retryCount q))
       (syncQueue (snd (processSyncQueue edited))) = [(Update, 1, 1)]"
  by code_simp

subsection \<open>Pulling a record the device does not know\<close>

text \<open>
  Claim C2, evaluated on the code. The server holds one ride and the device nothing.
  The pull phase counts one addition, but the row it stores is pending, not synced, and
  the sync queue gains a \<open>create\<close> entry for it. The next push sends that create; it
  carries the server's own \<^verbatim>\<open>_id\<close>, the backend rejects it, and the entry stays
  queued with one retry.
\<close>

theorem pull_adds_pending_and_enqueues:
  "fst (pullFromServer remoteOnly) = Inr \<lparr> added = 1, updated = 0, conflicts = 0 \<rparr> \<and>
   map (\<lambda>(i, a). (i, serverId a, syncStatus a)) (activities (snd (pullFromServer remoteOnly))) =
     [(1, Some ''s1'', Some Pending)] \<and>
   map (\<lambda>(i, q). (operation q, activityId q, retryCount q))
       (syncQueue (snd (pullFromServer remoteOnly))) = [(Create, 1, 0)] \<and>
   fst (processSyncQueue (snd (pullFromServer remoteOnly))) =
     \<lparr> push_success = 0, push_failed = 1,
       push_errors = [(1, ''Request failed with status code 500'')] \<rparr> \<and>
   map (\<lambda>(i, q). (operation q, activityId q, retryCount q))
       (syncQueue (snd (processSyncQueue (snd (pullFromServer remoteOnly))))) = [(Create, 1, 1)]"
  by code_simp

subsection \<open>Pulling a newer version of a pending record\<close>

text \<open>
  Claim C3, evaluated on the code. The local ride is pending with \<open>lastModified = 400\<close>
  and 4000 m; the server's version has \<open>lastModified = 500\<close> and 5000 m. The pull phase
  counts one conflict and one update and the local row takes the server's 5000 m, but it
  is left pending with the time of the pull, and the sync queue gains an \<open>update\<close> entry.
\<close>

theorem pull_conflict_leaves_pending:
  "map (\<lambda>(i, a). (i, serverId a, distance a, syncStatus a, lastModified a))
       (activities conflictWorld) = [(1, Some ''s1'', Some 4000, Some Pending, Some 400)] \<and>
   map (\<lambda>d. (x_id d, distance d, lastModified d)) (docs conflictWorld) =
     [(Some ''s1'', Some 5000, Some 500)] \<and>
   fst (pullFromServer conflictWorld) = Inr \<lparr> added = 0, updated = 1, conflicts = 1 \<rparr> \<and>
   map (\<lambda>(i, a). (i, serverId a, distance a, syncStatus a, lastModified a))
       (activities (snd (pullFromServer conflictWorld))) =
     [(1, Some ''s1'', Some 5000, Some Pending, Some 1000)] \<and>
   map (\<lambda>(i, q). (operation q, activityId q))
       (syncQueue (snd (pullFromServer conflictWorld))) = [(Update, 1)]"
  by code_simp

subsection \<open>Force sync\<close>

text \<open>
  Claim C4, evaluated on the code. The device holds one unsynced run (row 1, with its
  \<open>create\<close> entry queued) and the server one ride. \<^verbatim>\<open>forceSync()\<close> succeeds with
  count 1 and the store then holds the server's ride only, but as a pending row, and
  the queue is not empty: it holds a \<open>delete\<close> entry for the run that was discarded and
  a \<open>create\<close> entry for the ride that was downloaded.
\<close>

theorem forceSync_leaves_pending_and_queue:
  "map (\<lambda>(i, q). (operation q, activityId q)) (syncQueue diverged) = [(Create, 1)] \<and>
   fst (forceSync diverged) = Inr 1 \<and>
   map (\<lambda>(i, a). (i, serverId a, syncStatus a)) (activities (snd (forceSync diverged))) =
     [(2, Some ''s1'', Some Pending)] \<and>
   map (\<lambda>(i, q). (operation q, activityId q)) (syncQueue (snd (forceSync diverged))) =
     [(Delete, 1), (Create, 2)]"
  by code_simp

subsection \<open>What the pull phase fetches\<close>

text \<open>
  Claim C6, evaluated on the code. The last sync was at time 400 and the server's ride
  was modified at time 500, after it; the ride started at time 200. The list endpoint
  is asked for \<open>startDate = 400\<close> and selects on the start time, so it returns nothing:
  the pull phase reports no addition, update or conflict and the local copy keeps its
  version of time 300.
\<close>

theorem pull_misses_modified_record:
  "lastSync staleWorld = Some 400 \<and>
   map (\<lambda>d. (x_id d, startTime d, lastModified d)) (docs staleWorld) =
     [(Some ''s1'', Some 200, Some 500)] \<and>
   exports_getActivities (lastSync staleWorld) None staleWorld = [] \<and>
   fst (pullFromServer staleWorld) = Inr \<lparr> added = 0, updated = 0, conflicts = 0 \<rparr> \<and>
   map (\<lambda>(i, a). (i, serverId a, distance a, lastModified a))
       (activities (snd (pullFromServer staleWorld))) = [(1, Some ''s1'', Some 4000, Some 300)]"
  by code_simp

text \<open>Without a query limit the list endpoint returns 50 documents at most, also when
  no sync has been recorded yet.\<close>

lemma getActivities_default_limit:
  "length (exports_getActivities startDate None w) \<le> 50"
  by (simp add: exports_getActivities_def Let_def)

text \<open>With a \<^verbatim>\<open>startDate\<close> the list endpoint returns documents that started at or
  after it, whenever they were modified.\<close>

lemma getActivities_selects_on_startTime:
  assumes "d \<in> set (exports_getActivities (Some s) limit w)"
  shows "d \<in> set (docs w) \<and> (\<exists>t. startTime d = Some t \<and> s \<le> t)"
proof -
  let ?m = "filter (\<lambda>d. case startTime d of None \<Rightarrow> False | Some t \<Rightarrow> s \<le> t) (docs w)"
  have "d \<in> set (sort_key (\<lambda>d. - int (stKey d)) ?m)"
    using assms by (auto simp: exports_getActivities_def Let_def split: if_splits dest: in_set_takeD)
  then have "d \<in> set ?m" by simp
  then show ?thesis by (auto split: option.splits)
qed

subsection \<open>The guard and forceSync\<close>

text \<open>\<^verbatim>\<open>sync()\<close> releases the guard on every path of the cycle.\<close>

lemma sync_run_releases: "\<not> isSyncing (snd (sync_run w))"
  by (cases "sync_try w") (simp add: sync_run_def)

lemma sync_releases: "\<not> isSyncing w \<Longrightarrow> \<not> isSyncing (snd (sync w))"
  by (simp add: sync_def sync_enter_def sync_run_releases)

lemma enqueue_isSyncing: "isSyncing (enqueue opn aid d w) = isSyncing w"
  by (simp add: enqueue_def)

lemma fold_isSyncing:
  assumes "\<And>x v. isSyncing (f x v) = isSyncing v"
  shows "isSyncing (fold f xs w) = isSyncing w"
  by (induction xs arbitrary: w) (simp_all add: assms)

lemma fold_delete_isSyncing:
  "isSyncing (fold (\<lambda>(i, a). ActivityDB_delete i) rows w) = isSyncing w"
  by (rule fold_isSyncing) (simp add: ActivityDB_delete_def enqueue_isSyncing split: prod.splits)

lemma fold_add_isSyncing:
  "isSyncing (fold (\<lambda>serverActivity v. snd (ActivityDB_add (fromServer serverActivity) v)) sas w) =
     isSyncing w"
  by (rule fold_isSyncing) (simp add: ActivityDB_add_def Let_def enqueue_isSyncing)

lemma getActivities_isSyncing:
  "api_getActivities s l w = (r, w') \<Longrightarrow> isSyncing w' = isSyncing w"
  by (auto simp: api_getActivities_def transport_def split: list.splits if_splits)

text \<open>\<^verbatim>\<open>forceSync()\<close> neither looks at the guard nor sets it.\<close>

lemma forceSync_keeps_isSyncing: "isSyncing (snd (forceSync w)) = isSyncing w"
proof (cases "onLine w")
  case False
  then show ?thesis by (simp add: forceSync_def)
next
  case True
  obtain r w1 where g: "api_getActivities None (Some 1000) (SyncQueueDB_clear w) = (r, w1)"
    by (cases "api_getActivities None (Some 1000) (SyncQueueDB_clear w)")
  have "isSyncing w1 = isSyncing w"
    using getActivities_isSyncing [OF g] by (simp add: SyncQueueDB_clear_def)
  then show ?thesis using True g
    by (cases r)
       (simp_all add: forceSync_def Let_def SettingsDB_set_lastSync_def fold_add_isSyncing
          fold_delete_isSyncing)
qed

text \<open>
  Claim C7, evaluated on the code. A sync cycle is in flight (\<open>isSyncing\<close> is set). A
  second \<^verbatim>\<open>sync()\<close> gets the busy result and changes nothing, but
  \<^verbatim>\<open>forceSync()\<close> runs all the same: it succeeds, replaces the rows of the local
  store and refills the queue while the cycle is in flight.
\<close>

theorem forceSync_runs_during_sync:
  "fst (sync_enter diverged) = None \<and>
   isSyncing inFlight \<and>
   sync inFlight = (busyResult, inFlight) \<and>
   fst (forceSync inFlight) = Inr 1 \<and>
   map fst (activities inFlight) = [1] \<and>
   map fst (activities (snd (forceSync inFlight))) = [2] \<and>
   map (\<lambda>(i, q). (operation q, activityId q)) (syncQueue (snd (forceSync inFlight))) =
     [(Delete, 1), (Create, 2)] \<and>
   isSyncing (snd (forceSync inFlight))"
  by code_simp

subsection \<open>sync() always answers, and an aborted cycle changes nothing\<close>

lemma healthCheck_frame:
  "activities (snd (api_healthCheck w)) = activities w \<and>
   activitiesKey (snd (api_healthCheck w)) = activitiesKey w \<and>
   syncQueue (snd (api_healthCheck w)) = syncQueue w \<and>
   syncQueueKey (snd (api_healthCheck w)) = syncQueueKey w \<and>
   lastSync (snd (api_healthCheck w)) = lastSync w \<and>
   docs (snd (api_healthCheck w)) = docs w \<and>
   oidCounter (snd (api_healthCheck w)) = oidCounter w"
  by (simp add: api_healthCheck_def transport_def split: list.splits)

lemma healthCheck_isSyncing:
  "fst (api_healthCheck (w\<lparr> isSyncing := b \<rparr>)) = fst (api_healthCheck w)"
  by (simp add: api_healthCheck_def transport_def split: list.splits)

lemma sync_try_result:
  "sync_try w = (Inr r, w') \<Longrightarrow> success r \<and> message r = ''Sync completed'' \<and> push r \<noteq> None \<and> pull r \<noteq> None"
  by (auto simp: sync_try_def split: prod.splits sum.splits)

text \<open>
  Claim C9. \<^verbatim>\<open>sync()\<close> returns a result object on every path: a thrown error of
  the cycle becomes a result with \<open>success = False\<close> and the error's message and no
  phase counts, and a successful cycle gives both phase counts. When a sync is already
  in progress, or the device is offline, the world is left as it was; when the health
  probe fails, the result says the backend is not reachable and the local store, the
  sync queue, the last-sync setting and the server's documents are as before, and the
  guard is released.
\<close>

theorem sync_resolves_and_aborts_clean:
  "(isSyncing w \<longrightarrow> sync w = (busyResult, w)) \<and>
   (\<not> isSyncing w \<and> \<not> onLine w \<longrightarrow> sync w = (offlineResult, w)) \<and>
   (\<not> isSyncing w \<and> onLine w \<and> fst (api_healthCheck w) = Inl e \<longrightarrow>
      fst (sync w) = \<lparr> success = False, message = ''Backend is not reachable'',
                        push = None, pull = None \<rparr> \<and>
      activities (snd (sync w)) = activities w \<and>
      activitiesKey (snd (sync w)) = activitiesKey w \<and>
      syncQueue (snd (sync w)) = syncQueue w \<and>
      syncQueueKey (snd (sync w)) = syncQueueKey w \<and>
      lastSync (snd (sync w)) = lastSync w \<and>
      docs (snd (sync w)) = docs w \<and>
      \<not> isSyncing (snd (sync w))) \<and>
   (if success (fst (sync w))
    then message (fst (sync w)) = ''Sync completed'' \<and>
         push (fst (sync w)) \<noteq> None \<and> pull (fst (sync w)) \<noteq> None
    else push (fst (sync w)) = None \<and> pull (fst (sync w)) = None)"
proof (intro conjI impI)
  assume "isSyncing w"
  then show "sync w = (busyResult, w)" by (simp add: sync_def sync_enter_def)
next
  assume "\<not> isSyncing w \<and> \<not> onLine w"
  then show "sync w = (offlineResult, w)" by (simp add: sync_def sync_enter_def)
next
  show "if success (fst (sync w))
    then message (fst (sync w)) = ''Sync completed'' \<and>
         push (fst (sync w)) \<noteq> None \<and> pull (fst (sync w)) \<noteq> None
    else push (fst (sync w)) = None \<and> pull (fst (sync w)) = None"
    by (auto simp: sync_def sync_enter_def sync_run_def busyResult_def offlineResult_def
          split: prod.splits sum.splits dest: sync_try_result)
next
  assume h: "\<not> isSyncing w \<and> onLine w \<and> fst (api_healthCheck w) = Inl e"
  obtain w1 where hc: "api_healthCheck (w\<lparr> isSyncing := True \<rparr>) = (Inl e, w1)"
    using h healthCheck_isSyncing [where w = w and b = True] by (cases "api_healthCheck (w\<lparr> isSyncing := True \<rparr>)") simp
  have s: "sync w = (\<lparr> success = False, message = ''Backend is not reachable'',
                        push = None, pull = None \<rparr>, w1\<lparr> isSyncing := False \<rparr>)"
    using h hc by (simp add: sync_def sync_enter_def sync_run_def sync_try_def)
  have f: "w1 = snd (api_healthCheck (w\<lparr> isSyncing := True \<rparr>))" using hc by simp
  show "fst (sync w) = \<lparr> success = False, message = ''Backend is not reachable'',
                        push = None, pull = None \<rparr>" using s by simp
  show "activities (snd (sync w)) = activities w" using s f healthCheck_frame [of "w\<lparr> isSyncing := True \<rparr>"] by simp
  show "activitiesKey (snd (sync w)) = activitiesKey w" using s f healthCheck_frame [of "w\<lparr> isSyncing := True \<rparr>"] by simp
  show "syncQueue (snd (sync w)) = syncQueue w" using s f healthCheck_frame [of "w\<lparr> isSyncing := True \<rparr>"] by simp
  show "syncQueueKey (snd (sync w)) = syncQueueKey w" using s f healthCheck_frame [of "w\<lparr> isSyncing := True \<rparr>"] by simp
  show "lastSync (snd (sync w)) = lastSync w" using s f healthCheck_frame [of "w\<lparr> isSyncing := True \<rparr>"] by simp
  show "docs (snd (sync w)) = docs w" using s f healthCheck_frame [of "w\<lparr> isSyncing := True \<rparr>"] by simp
  show "\<not> isSyncing (snd (sync w))" using s by simp
qed

theorem sync_resolves_and_aborts_clean_witness:
  "isSyncing inFlight \<and> sync inFlight = (busyResult, inFlight) \<and>
   \<not> isSyncing offlineWorld \<and> \<not> onLine offlineWorld \<and> sync offlineWorld = (offlineResult, offlineWorld) \<and>
   \<not> isSyncing unreachable \<and> onLine unreachable \<and>
   fst (api_healthCheck unreachable) = Inl ''Backend is not reachable'' \<and>
   message (fst (sync unreachable)) = ''Backend is not reachable'' \<and>
   syncQueue (snd (sync unreachable)) = syncQueue recorded \<and>
   activities (snd (sync unreachable)) = activities recorded \<and>
   success (fst (sync recorded))"
proof -
  have a: "isSyncing inFlight" by code_simp
  have b: "\<not> isSyncing offlineWorld \<and> \<not> onLine offlineWorld" by code_simp
  have c: "\<not> isSyncing unreachable \<and> onLine unreachable \<and>
     fst (api_healthCheck unreachable) = Inl ''Backend is not reachable''" by code_simp
  have d: "syncQueue unreachable = syncQueue recorded \<and> activities unreachable = activities recorded"
    by (simp add: unreachable_def)
  have e: "success (fst (sync recorded))" by code_simp
  show ?thesis
    using a b c d e sync_resolves_and_aborts_clean [of inFlight]
      sync_resolves_and_aborts_clean [of offlineWorld]
      sync_resolves_and_aborts_clean [of unreachable "''Backend is not reachable''"]
    by simp
qed

subsection \<open>A synced row has a remote identifier\<close>

lemma rowsOk_append: "rowsOk (t @ [(i, a)]) = (rowsOk t \<and> (syncStatus a = Some Synced \<longrightarrow> truthy (serverId a)))"
  by (auto simp: rowsOk_def)

lemma rowsOk_delete: "rowsOk t \<Longrightarrow> rowsOk (tbl_delete k t)"
  by (auto simp: rowsOk_def tbl_delete_def)

lemma rowsOk_update:
  "rowsOk t \<Longrightarrow> (\<And>r. syncStatus (f r) = Some Synced \<Longrightarrow> truthy (serverId (f r))) \<Longrightarrow> rowsOk (tbl_update k f t)"
  by (fastforce simp: rowsOk_def tbl_update_def split: if_splits)

lemma inv_enqueue: "activities (enqueue opn aid d w) = activities w"
  by (simp add: enqueue_def)

lemma inv_add: "syncedHaveServerId w \<Longrightarrow> syncedHaveServerId (snd (ActivityDB_add a w))"
  by (simp add: syncedHaveServerId_def ActivityDB_add_def Let_def rowsOk_append inv_enqueue)

lemma inv_update: "syncedHaveServerId w \<Longrightarrow> syncedHaveServerId (ActivityDB_update i u w)"
  unfolding syncedHaveServerId_def ActivityDB_update_def Let_def
  by (simp add: inv_enqueue, rule rowsOk_update) (simp_all add: spread_def orElse_def)

lemma inv_delete: "syncedHaveServerId w \<Longrightarrow> syncedHaveServerId (ActivityDB_delete i w)"
  by (simp add: syncedHaveServerId_def ActivityDB_delete_def rowsOk_delete inv_enqueue)

lemma inv_markSynced:
  "syncedHaveServerId w \<Longrightarrow> truthy sid \<Longrightarrow> syncedHaveServerId (ActivityDB_markSynced i sid w)"
  unfolding syncedHaveServerId_def ActivityDB_markSynced_def
  by (simp, rule rowsOk_update) simp_all

lemma transport_activities: "transport w = (ok, w1) \<Longrightarrow> activities w1 = activities w"
  by (auto simp: transport_def split: list.splits)

lemma create_activities: "api_createActivity a w = (r, w') \<Longrightarrow> activities w' = activities w"
  by (cases "transport w")
     (auto simp: api_createActivity_def exports_createActivity_def Let_def
           dest: transport_activities split: option.splits if_splits)

lemma create_oid: "api_createActivity a w = (Inr d, w') \<Longrightarrow> truthy (x_id d)"
  by (cases "transport w")
     (auto simp: api_createActivity_def exports_createActivity_def Let_def truthy_def newOid_def
           split: option.splits if_splits)

lemma update_activities: "api_updateActivity s a w = (r, w') \<Longrightarrow> activities w' = activities w"
  by (cases "transport w")
     (auto simp: api_updateActivity_def exports_updateActivity_def Let_def
           dest: transport_activities split: option.splits if_splits)

lemma delete_activities: "api_deleteActivity s w = (r, w') \<Longrightarrow> activities w' = activities w"
  by (cases "transport w")
     (auto simp: api_deleteActivity_def exports_deleteActivity_def
           dest: transport_activities split: option.splits if_splits)

lemma getActivities_activities: "api_getActivities s l w = (r, w') \<Longrightarrow> activities w' = activities w"
  by (cases "transport w")
     (auto simp: api_getActivities_def dest: transport_activities split: if_splits)

lemma healthCheck_activities: "api_healthCheck w = (r, w') \<Longrightarrow> activities w' = activities w"
  by (cases "transport w")
     (auto simp: api_healthCheck_def dest: transport_activities split: if_splits)

lemma inv_syncCreate:
  assumes "syncedHaveServerId w"
  shows "syncedHaveServerId (snd (syncCreate item w))"
proof (cases "ActivityDB_getById (activityId item) w")
  case None
  then show ?thesis using assms by (simp add: syncCreate_def)
next
  case (Some activity)
  obtain r w1 where c: "api_createActivity activity w = (r, w1)"
    by (cases "api_createActivity activity w")
  have w1: "syncedHaveServerId w1"
    using assms create_activities [OF c] by (simp add: syncedHaveServerId_def)
  show ?thesis
  proof (cases r)
    case (Inl e)
    then show ?thesis using Some c w1 by (simp add: syncCreate_def)
  next
    case (Inr d)
    then have "truthy (x_id d)" using c create_oid by simp
    then show ?thesis using Some c Inr w1 by (simp add: syncCreate_def inv_markSynced)
  qed
qed

lemma inv_syncUpdate:
  assumes "syncedHaveServerId w"
  shows "syncedHaveServerId (snd (syncUpdate item w))"
proof (cases "ActivityDB_getById (activityId item) w")
  case None
  then show ?thesis using assms by (simp add: syncUpdate_def)
next
  case (Some activity)
  show ?thesis
  proof (cases "serverId activity")
    case None
    then show ?thesis using Some assms by (simp add: syncUpdate_def)
  next
    case sid: (Some sid)
    show ?thesis
    proof (cases "sid = []")
      case True
      then show ?thesis using Some sid assms by (simp add: syncUpdate_def)
    next
      case False
      obtain r w1 where c:
        "api_updateActivity sid (case data item of None \<Rightarrow> emptyActivity | Some d \<Rightarrow> d) w = (r, w1)"
        by (cases "api_updateActivity sid (case data item of None \<Rightarrow> emptyActivity | Some d \<Rightarrow> d) w")
      have w1: "syncedHaveServerId w1"
        using assms update_activities [OF c] by (simp add: syncedHaveServerId_def)
      have t: "truthy (Some sid)" using False by (simp add: truthy_def)
      show ?thesis
        using Some sid False c w1 inv_markSynced [OF w1 t]
        by (cases r) (simp_all add: syncUpdate_def)
    qed
  qed
qed

lemma inv_syncDelete:
  assumes "syncedHaveServerId w"
  shows "syncedHaveServerId (snd (syncDelete item w))"
proof (cases "ActivityDB_getById (activityId item) w")
  case None
  then show ?thesis using assms by (simp add: syncDelete_def)
next
  case (Some activity)
  show ?thesis
  proof (cases "serverId activity")
    case None
    then show ?thesis using Some assms by (simp add: syncDelete_def)
  next
    case sid: (Some sid)
    obtain r w1 where c: "api_deleteActivity sid w = (r, w1)"
      by (cases "api_deleteActivity sid w")
    have "syncedHaveServerId w1"
      using assms delete_activities [OF c] by (simp add: syncedHaveServerId_def)
    then show ?thesis using Some sid c assms by (simp add: syncDelete_def)
  qed
qed

lemma inv_dispatch: "syncedHaveServerId w \<Longrightarrow> syncedHaveServerId (snd (dispatch item w))"
  by (cases "operation item") (simp_all add: dispatch_def inv_syncCreate inv_syncUpdate inv_syncDelete)

lemma remove_activities: "activities (SyncQueueDB_remove i w) = activities w"
  by (simp add: SyncQueueDB_remove_def)

lemma incrementRetry_activities: "activities (SyncQueueDB_incrementRetry i w) = activities w"
  by (simp add: SyncQueueDB_incrementRetry_def split: option.splits)

lemma inv_processItem: "syncedHaveServerId w \<Longrightarrow> syncedHaveServerId (snd (processItem row results w))"
  using inv_dispatch [of w "snd row"]
  by (cases row)
     (auto simp: processItem_def Let_def syncedHaveServerId_def remove_activities
                 incrementRetry_activities split: prod.splits sum.splits)

lemma inv_processItems:
  "syncedHaveServerId w \<Longrightarrow> syncedHaveServerId (snd (processItems queue results w))"
proof (induction queue arbitrary: results w)
  case Nil
  then show ?case by simp
next
  case (Cons row queue)
  obtain results' w' where p: "processItem row results w = (results', w')"
    by (cases "processItem row results w")
  then have "syncedHaveServerId w'" using inv_processItem [of w row results] Cons.prems by simp
  then show ?case using p Cons.IH by simp
qed

lemma inv_processSyncQueue: "syncedHaveServerId w \<Longrightarrow> syncedHaveServerId (snd (processSyncQueue w))"
  by (simp add: processSyncQueue_def inv_processItems)

lemma inv_reconcile: "syncedHaveServerId w \<Longrightarrow> syncedHaveServerId (snd (reconcile sa results w))"
  by (auto simp: reconcile_def Let_def inv_add inv_update split: option.splits prod.splits)

lemma inv_reconcileAll:
  "syncedHaveServerId w \<Longrightarrow> syncedHaveServerId (snd (reconcileAll sas results w))"
proof (induction sas arbitrary: results w)
  case Nil
  then show ?case by simp
next
  case (Cons sa sas)
  obtain results' w' where p: "reconcile sa results w = (results', w')"
    by (cases "reconcile sa results w")
  then have "syncedHaveServerId w'" using inv_reconcile [of w sa results] Cons.prems by simp
  then show ?case using p Cons.IH by simp
qed

lemma inv_pullFromServer:
  assumes "syncedHaveServerId w"
  shows "syncedHaveServerId (snd (pullFromServer w))"
proof -
  obtain r w1 where g: "api_getActivities (lastSync w) None w = (r, w1)"
    by (cases "api_getActivities (lastSync w) None w")
  have w1: "syncedHaveServerId w1"
    using assms getActivities_activities [OF g] by (simp add: syncedHaveServerId_def)
  show ?thesis
  proof (cases r)
    case (Inl e)
    then show ?thesis using g w1 by (simp add: pullFromServer_def)
  next
    case (Inr sas)
    obtain res w2 where rc: "reconcileAll sas \<lparr> added = 0, updated = 0, conflicts = 0 \<rparr> w1 = (res, w2)"
      by (cases "reconcileAll sas \<lparr> added = 0, updated = 0, conflicts = 0 \<rparr> w1")
    then have "syncedHaveServerId w2"
      using inv_reconcileAll [OF w1, of sas "\<lparr> added = 0, updated = 0, conflicts = 0 \<rparr>"] by simp
    then show ?thesis using g Inr rc by (simp add: pullFromServer_def)
  qed
qed


lemma inv_sync_enter: "syncedHaveServerId w \<Longrightarrow> syncedHaveServerId (snd (sync_enter w))"
  by (simp add: sync_enter_def syncedHaveServerId_def)

lemma inv_sync_try:
  assumes "syncedHaveServerId w"
  shows "syncedHaveServerId (snd (sync_try w))"
proof -
  obtain h w1 where hc: "api_healthCheck w = (h, w1)"
    by (cases "api_healthCheck w")
  have w1: "syncedHaveServerId w1"
    using assms healthCheck_activities [OF hc] by (simp add: syncedHaveServerId_def)
  show ?thesis
  proof (cases h)
    case (Inl e)
    then show ?thesis using hc w1 by (simp add: sync_try_def)
  next
    case (Inr u)
    obtain pr w2 where p: "processSyncQueue w1 = (pr, w2)"
      by (cases "processSyncQueue w1")
    have w2: "syncedHaveServerId w2"
      using inv_processSyncQueue [OF w1] p by simp
    obtain q w3 where l: "pullFromServer w2 = (q, w3)"
      by (cases "pullFromServer w2")
    have w3: "syncedHaveServerId w3"
      using inv_pullFromServer [OF w2] l by simp
    then have "syncedHaveServerId (SettingsDB_set_lastSync w3)"
      by (simp add: SettingsDB_set_lastSync_def syncedHaveServerId_def)
    then show ?thesis using hc Inr p l w3 by (cases q) (simp_all add: sync_try_def)
  qed
qed

lemma inv_sync_run: "syncedHaveServerId w \<Longrightarrow> syncedHaveServerId (snd (sync_run w))"
  using inv_sync_try [of w]
  by (cases "sync_try w") (simp add: sync_run_def syncedHaveServerId_def)

lemma inv_sync:
  assumes "syncedHaveServerId w"
  shows "syncedHaveServerId (snd (sync w))"
proof (cases "sync_enter w")
  case (Pair r w1)
  then have w1: "syncedHaveServerId w1" using inv_sync_enter [OF assms] by simp
  show ?thesis
    using Pair w1 inv_sync_run [OF w1] by (cases r) (simp_all add: sync_def)
qed

lemma inv_fold_delete:
  "syncedHaveServerId w \<Longrightarrow>
     syncedHaveServerId (fold (\<lambda>(i, a). ActivityDB_delete i) rows w)"
  by (induction rows arbitrary: w) (auto simp: inv_delete)

lemma inv_fold_add:
  "syncedHaveServerId w \<Longrightarrow>
     syncedHaveServerId
       (fold (\<lambda>serverActivity v. snd (ActivityDB_add (fromServer serverActivity) v)) sas w)"
  by (induction sas arbitrary: w) (auto simp: inv_add)

lemma inv_forceSync:
  assumes "syncedHaveServerId w"
  shows "syncedHaveServerId (snd (forceSync w))"
proof (cases "onLine w")
  case False
  then show ?thesis using assms by (simp add: forceSync_def)
next
  case True
  obtain r w1 where g: "api_getActivities None (Some 1000) (SyncQueueDB_clear w) = (r, w1)"
    by (cases "api_getActivities None (Some 1000) (SyncQueueDB_clear w)")
  have w1: "syncedHaveServerId w1"
    using assms getActivities_activities [OF g]
    by (simp add: syncedHaveServerId_def SyncQueueDB_clear_def)
  show ?thesis
  proof (cases r)
    case (Inl e)
    then show ?thesis using True g w1 by (simp add: forceSync_def)
  next
    case (Inr sas)
    have "syncedHaveServerId
            (fold (\<lambda>serverActivity v. snd (ActivityDB_add (fromServer serverActivity) v)) sas
               (fold (\<lambda>(i, a). ActivityDB_delete i) (ActivityDB_getAll w1) w1))"
      by (intro inv_fold_add inv_fold_delete w1)
    then show ?thesis using True g Inr
      by (simp add: forceSync_def Let_def SettingsDB_set_lastSync_def syncedHaveServerId_def)
  qed
qed

text \<open>
  Claim C8. In every reachable state, every row of the local store whose \<open>syncStatus\<close> is
  synced has a non-empty remote identifier: \<^verbatim>\<open>add\<close> and \<^verbatim>\<open>update\<close> leave rows
  pending, and \<^verbatim>\<open>markSynced\<close> is only called with the identifier the backend
  returned for a create, or with the non-empty identifier the row already had.
\<close>

theorem reachable_synced_have_serverId:
  "reachable w \<Longrightarrow> syncedHaveServerId w"
proof (induction rule: reachable.induct)
  case (fresh w)
  then show ?case by (simp add: syncedHaveServerId_def rowsOk_def)
next
  case (env w ds n fs b t)
  then show ?case by (simp add: syncedHaveServerId_def)
next
  case (cleared w)
  then show ?case by (simp add: syncedHaveServerId_def SyncQueueDB_clear_def)
qed (simp_all add: inv_add inv_update inv_delete inv_sync inv_forceSync inv_sync_enter
       inv_sync_run inv_processItem inv_reconcile)

theorem reachable_synced_have_serverId_witness:
  "reachable firstSync \<and>
   map (\<lambda>(i, a). (i, serverId a, syncStatus a)) (activities firstSync) =
     [(1, Some ''o'', Some Synced)] \<and>
   syncedHaveServerId firstSync"
proof -
  have "reachable world0" by (rule reachable.fresh) (simp add: world0_def)
  then have "reachable recorded" unfolding recorded_def by (rule reachable.add)
  then have r: "reachable firstSync" unfolding firstSync_def by (rule reachable.sync)
  have e: "map (\<lambda>(i, a). (i, serverId a, syncStatus a)) (activities firstSync) =
     [(1, Some ''o'', Some Synced)]" by code_simp
  show ?thesis using r e reachable_synced_have_serverId [OF r] by simp
qed

subsection \<open>The retry ceiling\<close>

lemma tbl_get_delete: "tbl_get j (tbl_delete i t) = (if j = i then None else tbl_get j t)"
  by (induction t) (auto simp: tbl_get_def tbl_delete_def)

lemma tbl_get_update:
  "tbl_get j (tbl_update i f t) = (if j = i then map_option f (tbl_get i t) else tbl_get j t)"
  by (induction t) (auto simp: tbl_get_def tbl_update_def)

lemma transport_queue: "transport w = (ok, w1) \<Longrightarrow> syncQueue w1 = syncQueue w \<and> clock w1 = clock w"
  by (auto simp: transport_def split: list.splits)

lemma create_queue: "api_createActivity a w = (r, w') \<Longrightarrow> syncQueue w' = syncQueue w \<and> clock w' = clock w"
  by (cases "transport w")
     (auto simp: api_createActivity_def exports_createActivity_def Let_def
           dest: transport_queue split: option.splits if_splits)

lemma update_queue: "api_updateActivity s a w = (r, w') \<Longrightarrow> syncQueue w' = syncQueue w \<and> clock w' = clock w"
  by (cases "transport w")
     (auto simp: api_updateActivity_def exports_updateActivity_def Let_def
           dest: transport_queue split: option.splits if_splits)

lemma delete_queue: "api_deleteActivity s w = (r, w') \<Longrightarrow> syncQueue w' = syncQueue w \<and> clock w' = clock w"
  by (cases "transport w")
     (auto simp: api_deleteActivity_def exports_deleteActivity_def
           dest: transport_queue split: option.splits if_splits)

lemma syncCreate_queue: "syncCreate item w = (r, w') \<Longrightarrow> syncQueue w' = syncQueue w \<and> clock w' = clock w"
  by (auto simp: syncCreate_def ActivityDB_markSynced_def split: option.splits prod.splits sum.splits
           dest: create_queue)

lemma syncUpdate_queue: "syncUpdate item w = (r, w') \<Longrightarrow> syncQueue w' = syncQueue w \<and> clock w' = clock w"
  by (auto simp: syncUpdate_def ActivityDB_markSynced_def split: option.splits prod.splits sum.splits if_splits
           dest: update_queue)

lemma syncDelete_queue: "syncDelete item w = (r, w') \<Longrightarrow> syncQueue w' = syncQueue w \<and> clock w' = clock w"
  by (auto simp: syncDelete_def split: option.splits if_splits dest: delete_queue)

lemma dispatch_queue: "dispatch item w = (r, w') \<Longrightarrow> syncQueue w' = syncQueue w \<and> clock w' = clock w"
  by (cases "operation item") (auto simp: dispatch_def dest: syncCreate_queue syncUpdate_queue syncDelete_queue)


text \<open>What one turn of the push loop does to the queue and to the error list.\<close>

lemma processItem_cases:
  assumes "processItem (i, item) results w = (results', w')"
  shows "clock w' = clock w \<and>
    ((push_errors results' = push_errors results \<and> syncQueue w' = tbl_delete i (syncQueue w)) \<or>
     (\<exists>e. push_errors results' = push_errors results @ [(i, e)] \<and>
          syncQueue w' =
            (if 5 \<le> retryCount item
             then tbl_delete i (syncQueue (SyncQueueDB_incrementRetry i (w\<lparr> syncQueue := syncQueue w \<rparr>)))
             else syncQueue (SyncQueueDB_incrementRetry i (w\<lparr> syncQueue := syncQueue w \<rparr>)))))"
proof -
  obtain r w1 where d: "dispatch item w = (r, w1)"
    by (cases "dispatch item w")
  have f: "syncQueue w1 = syncQueue w" "clock w1 = clock w"
    using dispatch_queue [OF d] by simp_all
  have inc: "syncQueue (SyncQueueDB_incrementRetry i w1) = syncQueue (SyncQueueDB_incrementRetry i w)"
    using f by (simp add: SyncQueueDB_incrementRetry_def split: option.splits)
  have incc: "clock (SyncQueueDB_incrementRetry i w1) = clock w"
    using f by (simp add: SyncQueueDB_incrementRetry_def split: option.splits)
  show ?thesis
  proof (cases r)
    case (Inr u)
    then show ?thesis using assms d f by (auto simp: processItem_def SyncQueueDB_remove_def)
  next
    case (Inl e)
    then show ?thesis using assms d f inc incc
      by (auto simp: processItem_def SyncQueueDB_remove_def Let_def)
  qed
qed

lemma incrementRetry_get:
  "tbl_get j (syncQueue (SyncQueueDB_incrementRetry i w)) =
     (if j = i
      then map_option (\<lambda>q. q\<lparr> retryCount := retryCount q + 1, lastAttempt := Some (clock w) \<rparr>)
             (tbl_get i (syncQueue w))
      else tbl_get j (syncQueue w))"
  by (cases "tbl_get i (syncQueue w)")
     (auto simp: SyncQueueDB_incrementRetry_def tbl_get_update)

text \<open>A turn on another row leaves the entry and its errors alone.\<close>

lemma processItem_other:
  assumes "processItem (i, item) results w = (results', w')" and "k \<noteq> i"
  shows "tbl_get k (syncQueue w') = tbl_get k (syncQueue w) \<and> clock w' = clock w \<and>
         (k \<in> fst ` set (push_errors results') \<longleftrightarrow> k \<in> fst ` set (push_errors results))"
  using processItem_cases [OF assms(1)] assms(2)
  by (auto simp: tbl_get_delete incrementRetry_get)

lemma processItems_other:
  assumes "processItems rows results w = (results', w')" and "k \<notin> fst ` set rows"
  shows "tbl_get k (syncQueue w') = tbl_get k (syncQueue w) \<and> clock w' = clock w \<and>
         (k \<in> fst ` set (push_errors results') \<longleftrightarrow> k \<in> fst ` set (push_errors results))"
  using assms
proof (induction rows arbitrary: results w)
  case Nil
  then show ?case by simp
next
  case (Cons row rows)
  obtain i item where row: "row = (i, item)" by (cases row)
  obtain r1 w1 where p: "processItem (i, item) results w = (r1, w1)"
    by (cases "processItem (i, item) results w")
  have ki: "k \<noteq> i" and kr: "k \<notin> fst ` set rows" using Cons.prems(2) row by auto
  have rest: "processItems rows r1 w1 = (results', w')" using Cons.prems(1) row p by simp
  show ?case using Cons.IH [OF rest kr] processItem_other [OF p ki] by simp
qed

text \<open>The turn on the entry itself.\<close>

lemma processItem_self:
  assumes "processItem (k, item) results w = (results', w')"
      and "tbl_get k (syncQueue w) = Some item"
      and "k \<notin> fst ` set (push_errors results)"
  shows "clock w' = clock w \<and>
         (if k \<in> fst ` set (push_errors results')
          then tbl_get k (syncQueue w') =
                 (if 5 \<le> retryCount item then None
                  else Some (item\<lparr> retryCount := retryCount item + 1,
                                   lastAttempt := Some (clock w) \<rparr>))
          else tbl_get k (syncQueue w') = None)"
  using processItem_cases [OF assms(1)] assms(2,3)
  by (auto simp: tbl_get_delete incrementRetry_get)

lemma processItems_entry:
  assumes "processItems rows results w = (results', w')"
      and "distinct (map fst rows)"
      and "(k, item) \<in> set rows"
      and "tbl_get k (syncQueue w) = Some item"
      and "k \<notin> fst ` set (push_errors results)"
  shows "if k \<in> fst ` set (push_errors results')
          then tbl_get k (syncQueue w') =
                 (if 5 \<le> retryCount item then None
                  else Some (item\<lparr> retryCount := retryCount item + 1,
                                   lastAttempt := Some (clock w) \<rparr>))
          else tbl_get k (syncQueue w') = None"
  using assms
proof (induction rows arbitrary: results w)
  case Nil
  then show ?case by simp
next
  case (Cons row rows)
  obtain i it where row: "row = (i, it)" by (cases row)
  obtain r1 w1 where p: "processItem (i, it) results w = (r1, w1)"
    by (cases "processItem (i, it) results w")
  have rest: "processItems rows r1 w1 = (results', w')" using Cons.prems(1) row p by simp
  have d: "distinct (map fst rows)" and inot: "i \<notin> fst ` set rows"
    using Cons.prems(2) row by auto
  show ?case
  proof (cases "k = i")
    case True
    then have it: "it = item" using Cons.prems(3) row inot by force
    have knot: "k \<notin> fst ` set rows" using True inot by simp
    have p': "processItem (k, item) results w = (r1, w1)" using p True it by simp
    show ?thesis
      using processItem_self [OF p' Cons.prems(4,5)] processItems_other [OF rest knot]
      by simp
  next
    case False
    then have mem: "(k, item) \<in> set rows" using Cons.prems(3) row by auto
    have o: "tbl_get k (syncQueue w1) = tbl_get k (syncQueue w) \<and> clock w1 = clock w \<and>
         (k \<in> fst ` set (push_errors r1) \<longleftrightarrow> k \<in> fst ` set (push_errors results))"
      by (rule processItem_other [OF p False])
    show ?thesis
      using Cons.IH [OF rest d mem] o Cons.prems(4,5) by simp
  qed
qed

lemma distinct_fst_insort:
  "distinct (map fst (insort_key f x xs)) = (fst x \<notin> fst ` set xs \<and> distinct (map fst xs))"
  by (induction xs) (auto simp: set_insort_key)

lemma distinct_fst_sort: "distinct (map fst (sort_key f xs)) = distinct (map fst xs)"
  by (induction xs) (auto simp: distinct_fst_insort)

text \<open>The state in which the sixth push starts, written out.\<close>

lemma sixthPush_state:
  "sixthPush =
     recorded\<lparr> syncQueue :=
                  [(1, \<lparr> operation = Create, activityId = 1, data = Some run3k,
                         timestamp = 1000, retryCount = 5, lastAttempt = Some 1000 \<rparr>)],
               lastSync := Some 1000, faults := [True, False] \<rparr>"
  by code_simp

text \<open>
  Claim C5, as amended. Let a push phase run on a queue whose keys are distinct. An
  entry that is not in the queue before is not in it after and is not processed. An
  entry whose processing fails in this cycle (it is in the cycle's error list) is removed
  in this cycle exactly when its retry counter was 5 or more when the cycle started;
  with a counter below 5 it stays queued with the counter one higher and the time of the
  attempt. An entry whose processing succeeds is removed. The counter starts at 0 and
  grows by one per failure, so the removal happens on the sixth failure.
\<close>

theorem retry_ceiling:
  assumes "distinct (map fst (syncQueue w))"
      and "processSyncQueue w = (results, w')"
  shows "(tbl_get k (syncQueue w) = None \<longrightarrow>
            tbl_get k (syncQueue w') = None \<and> k \<notin> fst ` set (push_errors results)) \<and>
         (\<forall>item. tbl_get k (syncQueue w) = Some item \<longrightarrow>
            (if k \<in> fst ` set (push_errors results)
             then tbl_get k (syncQueue w') =
                    (if 5 \<le> retryCount item then None
                     else Some (item\<lparr> retryCount := retryCount item + 1,
                                      lastAttempt := Some (clock w) \<rparr>))
             else tbl_get k (syncQueue w') = None))"
proof (intro conjI allI impI)
  assume n: "tbl_get k (syncQueue w) = None"
  then have "k \<notin> fst ` set (SyncQueueDB_getAll w)"
    by (simp add: SyncQueueDB_getAll_def tbl_get_def map_of_eq_None_iff)
  from processItems_other [OF assms(2) [unfolded processSyncQueue_def] this] n
  show "tbl_get k (syncQueue w') = None" and "k \<notin> fst ` set (push_errors results)" by simp_all
next
  fix item
  assume s: "tbl_get k (syncQueue w) = Some item"
  then have mem: "(k, item) \<in> set (SyncQueueDB_getAll w)"
    by (simp add: SyncQueueDB_getAll_def tbl_get_def map_of_SomeD)
  have d: "distinct (map fst (SyncQueueDB_getAll w))"
    using assms(1) by (simp add: SyncQueueDB_getAll_def distinct_fst_sort)
  from processItems_entry [OF assms(2) [unfolded processSyncQueue_def] d mem s]
  show "if k \<in> fst ` set (push_errors results)
             then tbl_get k (syncQueue w') =
                    (if 5 \<le> retryCount item then None
                     else Some (item\<lparr> retryCount := retryCount item + 1,
                                      lastAttempt := Some (clock w) \<rparr>))
             else tbl_get k (syncQueue w') = None" by simp
qed


theorem retry_ceiling_witness:
  "distinct (map fst (syncQueue firstPush)) \<and>
   map_option retryCount (tbl_get 1 (syncQueue firstPush)) = Some 0 \<and>
   1 \<in> fst ` set (push_errors (fst (processSyncQueue firstPush))) \<and>
   map_option retryCount (tbl_get 1 (syncQueue (snd (processSyncQueue firstPush)))) = Some 1 \<and>
   distinct (map fst (syncQueue sixthPush)) \<and>
   map_option retryCount (tbl_get 1 (syncQueue sixthPush)) = Some 5 \<and>
   1 \<in> fst ` set (push_errors (fst (processSyncQueue sixthPush))) \<and>
   tbl_get 1 (syncQueue (snd (processSyncQueue sixthPush))) = None \<and>
   tbl_get 2 (syncQueue sixthPush) = None \<and>
   tbl_get 2 (syncQueue (snd (processSyncQueue sixthPush))) = None"
proof -
  have d1: "distinct (map fst (syncQueue firstPush))" by code_simp
  have g1: "tbl_get 1 (syncQueue firstPush) =
      Some \<lparr> operation = Create, activityId = 1, data = Some run3k, timestamp = 1000,
             retryCount = 0, lastAttempt = None \<rparr>" by code_simp
  have e1: "1 \<in> fst ` set (push_errors (fst (processSyncQueue firstPush)))" by code_simp
  have d6: "distinct (map fst (syncQueue sixthPush))"
    by (simp add: sixthPush_state)
  have g6: "tbl_get 1 (syncQueue sixthPush) =
      Some \<lparr> operation = Create, activityId = 1, data = Some run3k, timestamp = 1000,
             retryCount = 5, lastAttempt = Some 1000 \<rparr>"
    by (simp add: sixthPush_state tbl_get_def)
  have e6: "1 \<in> fst ` set (push_errors (fst (processSyncQueue sixthPush)))"
    unfolding sixthPush_state by code_simp
  have n6: "tbl_get 2 (syncQueue sixthPush) = None"
    by (simp add: sixthPush_state tbl_get_def)
  have p1: "processSyncQueue firstPush =
      (fst (processSyncQueue firstPush), snd (processSyncQueue firstPush))" by simp
  have p6: "processSyncQueue sixthPush =
      (fst (processSyncQueue sixthPush), snd (processSyncQueue sixthPush))" by simp
  show ?thesis
    using d1 g1 e1 d6 g6 e6 n6
      retry_ceiling [OF d1 p1, of 1] retry_ceiling [OF d6 p6, of 1] retry_ceiling [OF d6 p6, of 2]
    by simp
qed

text \<open>
  The claim as stated fails. Here the create of the only entry fails in six cycles in a
  row. After each of the first five the entry is still in the queue, after the fifth
  with retry counter 5; it is the sixth failure that removes it.
\<close>

theorem five_failures_stay_queued:
  "cycleTrace 6 lossy =
     [([1], [(1, 1)]), ([1], [(1, 2)]), ([1], [(1, 3)]), ([1], [(1, 4)]), ([1], [(1, 5)]),
      ([1], [])]"
  by code_simp

end
